theory Spec2Isabelle
  imports Main
begin

section \<open>The ambient module declaration \<open>'firebird'\<close> (types/firebird/index.d.ts)\<close>

text \<open>
  The source is a TypeScript declaration file: it has no function bodies, only the
  signatures of one module. Its content is therefore embedded as the data it is: the
  module is the list of its top-level declarations, in source order, every class and
  interface with all of its members, every overload as a member of its own, every
  parameter with its name, its type, its \<open>?\<close> and its \<open>...\<close>. The operations on that
  data are the ones TypeScript gives a declaration: looking a member up by name,
  inheriting the members of the class named after \<open>extends\<close>, assigning to a property
  that has no \<open>readonly\<close> modifier.
\<close>

subsection \<open>Type expressions\<close>

datatype ty =
    TVoid
  | TBoolean
  | TNumber
  | TString
  | TNull
  | TThis
  | TTrue
  | TFalse
  | TEmptyObject
  | TLit string
  | TRef string
  | TVar string
  | TArray ty
  | TUnion "ty list"
  | TIndex string ty ty
  | TFun "(string \<times> ty) list" ty

text \<open>
  \<open>TTrue\<close> and \<open>TFalse\<close> are the literal types \<open>true\<close> and \<open>false\<close>, \<open>TLit ''all''\<close> the
  string literal type \<open>"all"\<close>, \<open>TEmptyObject\<close> the type \<open>{}\<close>, \<open>TRef\<close> a type named in
  the module or in the runtime (\<open>Buffer\<close>, \<open>Date\<close>, \<open>Error\<close>, \<open>Function\<close>), \<open>TVar\<close> a type
  parameter of the method, \<open>TIndex ''column'' TString t\<close> the object type
  \<open>{[column: string]: t}\<close>, and \<open>TFun\<close> a function type with its named parameters.
\<close>

datatype param = Param (p_name: string) (p_type: ty) (p_optional: bool) (p_rest: bool)

abbreviation req :: "string \<Rightarrow> ty \<Rightarrow> param" where
  "req n t \<equiv> Param n t False False"

abbreviation opt :: "string \<Rightarrow> ty \<Rightarrow> param" where
  "opt n t \<equiv> Param n t True False"

abbreviation rest :: "string \<Rightarrow> ty \<Rightarrow> param" where
  "rest n t \<equiv> Param n t False True"

datatype member =
    Ctor "param list"
  | Method string "(string \<times> ty) list" "param list" ty
  | Property string ty bool

text \<open>
  \<open>Method name type_parameters parameters return_type\<close>; a type parameter is paired with
  its \<open>extends\<close> bound. \<open>Property name type readonly\<close>, where the flag says whether the
  declaration carries the \<open>readonly\<close> modifier.
\<close>

datatype decl =
    ImportDecl string string
  | FunctionDecl string "param list" ty
  | ClassDecl string "string option" "member list"
  | InterfaceDecl string "member list"
  | TypeAlias string ty

subsection \<open>The declarations of the module\<close>

abbreviation Err :: ty where
  "Err \<equiv> TUnion [TRef ''Error'', TNull]"

abbreviation err_callback :: ty where
  "err_callback \<equiv> TFun [(''err'', Err)] TVoid"

abbreviation DataType :: ty where
  "DataType \<equiv> TRef ''DataType''"

abbreviation Buffer :: ty where
  "Buffer \<equiv> TRef ''Buffer''"

abbreviation row_count :: param where
  "row_count \<equiv> req ''rowCount'' (TUnion [TNumber, TLit ''all''])"

abbreviation keyed_row :: ty where
  "keyed_row \<equiv> TIndex ''column'' TString DataType"

abbreviation eof_callback :: param where
  "eof_callback \<equiv> req ''eofCallback'' (TFun [(''err'', Err), (''eof'', TBoolean)] TVoid)"

abbreviation read_callback :: ty where
  "read_callback \<equiv> TFun [(''err'', Err), (''buffer'', Buffer), (''len'', TNumber)] TVoid"

definition Connection_members :: "member list" where
  "Connection_members =
    [ Ctor [],
      Method ''connectSync'' []
        [req ''db'' TString, req ''user'' TString, req ''pass'' TString, req ''role'' TString] TVoid,
      Method ''connect'' []
        [req ''db'' TString, req ''user'' TString, req ''pass'' TString, req ''role'' TString,
         req ''callback'' err_callback] TVoid,
      Property ''connected'' TBoolean False,
      Method ''querySync'' [] [req ''sql'' TString] (TRef ''FBResult''),
      Method ''query'' []
        [req ''sql'' TString,
         req ''callback'' (TFun [(''err'', Err), (''res'', TRef ''FBResult'')] TVoid)] TVoid,
      Method ''addFBevent'' [] [req ''name'' TString] TVoid,
      Method ''deleteFBevent'' [] [req ''name'' TString] TVoid,
      Method ''commitSync'' [] [] TVoid,
      Method ''commit'' [] [req ''callback'' err_callback] TVoid,
      Method ''rollbackSync'' [] [] TVoid,
      Method ''rollback'' [] [req ''callback'' err_callback] TVoid,
      Method ''startSync'' [] [] TVoid,
      Method ''start'' [] [req ''callback'' err_callback] TVoid,
      Method ''prepareSync'' [] [req ''sql'' TString] (TRef ''FBStatement''),
      Property ''inTransaction'' TBoolean False,
      Method ''newBlobSync'' [] [] (TRef ''FBBlob''),
      Method ''startNewTransactionSync'' [] [] (TRef ''Transaction''),
      Method ''startNewTransaction'' []
        [req ''callback''
           (TFun [(''err'', Err), (''transaction'', TRef ''Transaction'')] TVoid)] TVoid ]"

definition FBResult_members :: "member list" where
  "FBResult_members =
    [ Method ''fetchSync'' [] [row_count, req ''asObject'' TBoolean]
        (TUnion [TArray (TArray DataType), TArray keyed_row]),
      Method ''fetchSync'' [] [row_count, req ''asObject'' TFalse] (TArray (TArray DataType)),
      Method ''fetchSync'' [] [row_count, req ''asObject'' TTrue] (TArray keyed_row),
      Method ''fetchSync'' [(''T'', TEmptyObject)] [row_count, req ''asObject'' TTrue]
        (TArray (TVar ''T'')),
      Method ''fetch'' []
        [row_count, req ''asObject'' TBoolean,
         req ''rowCallback'' (TFun [(''row'', TUnion [TArray DataType, keyed_row])] TVoid),
         eof_callback] TVoid,
      Method ''fetch'' []
        [row_count, req ''asObject'' TFalse,
         req ''rowCallback'' (TFun [(''row'', TArray DataType)] TVoid),
         eof_callback] TVoid,
      Method ''fetch'' []
        [row_count, req ''asObject'' TTrue,
         req ''rowCallback'' (TFun [(''row'', keyed_row)] TVoid),
         eof_callback] TVoid,
      Method ''fetch'' [(''T'', TEmptyObject)]
        [row_count, req ''asObject'' TTrue,
         req ''rowCallback'' (TFun [(''row'', TVar ''T'')] TVoid),
         eof_callback] TVoid ]"

definition Transaction_members :: "member list" where
  "Transaction_members =
    [ Method ''querySync'' [] [req ''sql'' TString] TVoid,
      Method ''query'' []
        [req ''sql'' TString,
         req ''callback'' (TFun [(''err'', Err), (''res'', TRef ''FBResult'')] TVoid)] TVoid,
      Method ''commitSync'' [] [] TVoid,
      Method ''commit'' [] [req ''callback'' err_callback] TVoid,
      Method ''rollbackSync'' [] [] TVoid,
      Method ''rollback'' [] [req ''callback'' err_callback] TVoid,
      Method ''startSync'' [] [] TVoid,
      Method ''start'' [] [req ''callback'' err_callback] TVoid,
      Method ''prepareSync'' [] [req ''sql'' TString] (TRef ''FBStatement''),
      Property ''inTransaction'' TBoolean False ]"

definition FBStatement_members :: "member list" where
  "FBStatement_members =
    [ Method ''execSync'' [] [rest ''params'' (TArray DataType)] TVoid,
      Method ''execInTransSync'' []
        [req ''transaction'' (TRef ''Transaction''), rest ''params'' (TArray DataType)] TVoid,
      Method ''exec'' [] [rest ''params'' (TArray DataType)] TVoid,
      Method ''execInTrans'' []
        [req ''transaction'' (TRef ''Transaction''), rest ''params'' (TArray DataType)] TVoid ]"

definition FBBlob_members :: "member list" where
  "FBBlob_members =
    [ Method ''_openSync'' [] [] TVoid,
      Method ''_closeSync'' [] [] TVoid,
      Method ''_readSync'' [] [req ''buffer'' Buffer] TNumber,
      Method ''_read'' [] [req ''buffer'' Buffer, req ''callback'' read_callback] TVoid,
      Method ''_readAll'' []
        [opt ''initialSize'' TNumber, opt ''chunkSize'' TNumber, opt ''callback'' read_callback]
        TVoid,
      Method ''_readAll'' [] [req ''initialSize'' TNumber, req ''callback'' read_callback] TVoid,
      Method ''_readAll'' [] [req ''callback'' read_callback] TVoid,
      Method ''_writeSync'' [] [req ''buffer'' Buffer, opt ''len'' TNumber] TNumber,
      Method ''_write'' []
        [req ''buffer'' Buffer, opt ''len'' TNumber, opt ''callback'' err_callback] TVoid ]"

definition Stream_members :: "member list" where
  "Stream_members =
    [ Ctor [req ''blob'' (TRef ''FBBlob'')],
      Property ''readable'' TBoolean False,
      Method ''pause'' [] [] TThis,
      Method ''resume'' [] [] TThis,
      Property ''writable'' TBoolean False,
      Method ''write'' []
        [req ''buffer'' (TUnion [Buffer, TString]), opt ''cb'' (TRef ''Function'')] TBoolean,
      Method ''write'' []
        [req ''str'' TString, opt ''encoding'' TString, opt ''cb'' (TRef ''Function'')] TBoolean,
      Method ''end'' [] [] TThis,
      Method ''end'' [] [req ''buffer'' Buffer, opt ''cb'' (TRef ''Function'')] TThis,
      Method ''end'' [] [req ''str'' TString, opt ''cb'' (TRef ''Function'')] TThis,
      Method ''end'' []
        [req ''str'' TString, opt ''encoding'' TString, opt ''cb'' (TRef ''Function'')] TThis,
      Method ''destroy'' [] [opt ''error'' (TRef ''Error'')] TThis,
      Method ''check_destroyed'' [] [] TVoid ]"

definition firebird :: "decl list" where
  "firebird =
    [ ImportDecl ''stream'' ''stream'',
      FunctionDecl ''createConnection'' [] (TRef ''Connection''),
      ClassDecl ''Connection'' None Connection_members,
      TypeAlias ''DataType'' (TUnion [TRef ''Date'', TString, TNumber, TRef ''FBBlob'']),
      ClassDecl ''FBResult'' None FBResult_members,
      InterfaceDecl ''Transaction'' Transaction_members,
      ClassDecl ''FBStatement'' (Some ''FBResult'') FBStatement_members,
      InterfaceDecl ''FBBlob'' FBBlob_members,
      ClassDecl ''Stream'' (Some ''stream.Stream'') Stream_members ]"

subsection \<open>Documentation comments\<close>

text \<open>
  The lines of the documentation comments that the properties below refer to, as they
  stand in the source (without the leading \<open>*\<close>, the blank lines and the lines of a
  code fence), keyed by the declaration they precede.
\<close>

definition documentation :: "(string \<times> string list) list" where
  "documentation =
    [ (''Connection.connected'',
        [''A boolean readonly property indicating if Connection object is connected to database'']),
      (''Connection.querySync'',
        [''Executes SQL query.'',
         ''@param sql an SQL query to execute.'',
         ''@return object in case of success.'',
         ''@throws Raises error otherwise.'']),
      (''Connection.inTransaction'',
        [''A boolean readonly property indicating if connection is in started transaction state.'']),
      (''Connection.startNewTransactionSync'',
        [''Creates new Transaction object and starts new transaction.'',
         ''@returns created object.'']),
      (''Connection.startNewTransaction'',
        [''Creates new Transaction object and starts new transaction.'',
         ''@param callback function(err, transaction), where err is error object in case of error, transaction - newly created transaction.'']),
      (''Transaction'',
        [''Represents SQL transaction.'',
         ''@description'',
         ''To get instance of this object call @see startNewTransactionSync or @see startNewTransaction methods of @see Connection object.'',
         ''Transaction objects may be reused after commit or rollback.'']),
      (''Transaction.querySync'',
        [''Executes SQL query in context of this transaction. Returns FBResult object in case of success. Raises error otherwise.'',
         ''@param sql an SQL query to execute.'']),
      (''FBBlob._readSync'',
        [''Synchronously reads BLOB segment (chunk) into buffer. Tries to fill whole buffer with data.'',
         ''@param buffer Node buffer to fill with data.'',
         ''@returns actual number of bytes read.'']),
      (''FBBlob._writeSync'',
        [''Synchronously writes BLOB segment (chunk) from buffer.'',
         ''@param buffer Node buffer to write from to blob;'',
         ''@param len optional length parameter, if specified only len bytes from buffer will be writen.'',
         ''@returns number of bytes actually writen.'']),
      (''Stream'',
        [''Represents BLOB stream.'',
         ''@description'',
         ''Create BLOB stream using'',
         ''var strm = new fb.Stream(FBblob);.'',
         ''You may pipe strm to/from NodeJS Stream objects (fs or socket).'',
         ''You may also look at [NodeJS Streams reference](https://nodejs.org/api/stream.html).'']) ]"

fun starts_with :: "string \<Rightarrow> string \<Rightarrow> bool" where
  "starts_with [] s = True"
| "starts_with (c # w) [] = False"
| "starts_with (c # w) (d # s) = (c = d \<and> starts_with w s)"

fun contains :: "string \<Rightarrow> string \<Rightarrow> bool" where
  "contains w [] = (w = [])"
| "contains w (c # s) = (starts_with w (c # s) \<or> contains w s)"

definition doc_lines :: "string \<Rightarrow> string list" where
  "doc_lines key = (case map_of documentation key of None \<Rightarrow> [] | Some ls \<Rightarrow> ls)"

definition doc_says :: "string \<Rightarrow> string \<Rightarrow> bool" where
  "doc_says key w = list_ex (contains w) (doc_lines key)"

subsection \<open>Looking declarations and members up\<close>

fun decl_name :: "decl \<Rightarrow> string" where
  "decl_name (ImportDecl n m) = n"
| "decl_name (FunctionDecl n ps r) = n"
| "decl_name (ClassDecl n b ms) = n"
| "decl_name (InterfaceDecl n ms) = n"
| "decl_name (TypeAlias n t) = n"

fun find_decl :: "decl list \<Rightarrow> string \<Rightarrow> decl option" where
  "find_decl [] n = None"
| "find_decl (d # ds) n = (if decl_name d = n then Some d else find_decl ds n)"

fun own_members :: "decl \<Rightarrow> member list" where
  "own_members (ClassDecl n b ms) = ms"
| "own_members (InterfaceDecl n ms) = ms"
| "own_members d = []"

fun base_of :: "decl \<Rightarrow> string option" where
  "base_of (ClassDecl n b ms) = b"
| "base_of d = None"

fun is_ctor :: "member \<Rightarrow> bool" where
  "is_ctor (Ctor ps) = True"
| "is_ctor m = False"

fun member_name :: "member \<Rightarrow> string option" where
  "member_name (Ctor ps) = None"
| "member_name (Method n tps ps r) = Some n"
| "member_name (Property n t ro) = Some n"

fun method_name :: "member \<Rightarrow> string option" where
  "method_name (Method n tps ps r) = Some n"
| "method_name m = None"

fun m_tparams :: "member \<Rightarrow> (string \<times> ty) list" where
  "m_tparams (Method n tps ps r) = tps"
| "m_tparams m = []"

fun m_params :: "member \<Rightarrow> param list" where
  "m_params (Method n tps ps r) = ps"
| "m_params (Ctor ps) = ps"
| "m_params (Property n t ro) = []"

fun m_ret :: "member \<Rightarrow> ty option" where
  "m_ret (Method n tps ps r) = Some r"
| "m_ret m = None"

definition declared_members :: "decl list \<Rightarrow> string \<Rightarrow> member list" where
  "declared_members ds c = (case find_decl ds c of None \<Rightarrow> [] | Some d \<Rightarrow> own_members d)"

definition class_extends :: "decl list \<Rightarrow> string \<Rightarrow> string option" where
  "class_extends ds c = (case find_decl ds c of None \<Rightarrow> None | Some d \<Rightarrow> base_of d)"

text \<open>
  A class has its own members and, after them, the methods and properties of the class
  it extends (a constructor is not a member of the instance). The chain of \<open>extends\<close> is
  followed for at most as many steps as the module has declarations; a base class that
  the module does not declare (\<open>stream.Stream\<close>) contributes nothing that this file
  says.
\<close>

fun members_upto :: "nat \<Rightarrow> decl list \<Rightarrow> string \<Rightarrow> member list" where
  "members_upto 0 ds c = []"
| "members_upto (Suc k) ds c =
    (case find_decl ds c of
       None \<Rightarrow> []
     | Some d \<Rightarrow>
         own_members d @
         (case base_of d of
            None \<Rightarrow> []
          | Some b \<Rightarrow> filter (\<lambda>m. \<not> is_ctor m) (members_upto k ds b)))"

definition members_of :: "decl list \<Rightarrow> string \<Rightarrow> member list" where
  "members_of ds c = members_upto (length ds) ds c"

definition overloads :: "decl list \<Rightarrow> string \<Rightarrow> string \<Rightarrow> member list" where
  "overloads ds c n = filter (\<lambda>m. method_name m = Some n) (members_of ds c)"

definition properties :: "decl list \<Rightarrow> string \<Rightarrow> string \<Rightarrow> member list" where
  "properties ds c n =
     filter (\<lambda>m. member_name m = Some n \<and> method_name m = None) (members_of ds c)"

definition method_names :: "decl list \<Rightarrow> string \<Rightarrow> string list" where
  "method_names ds c = remdups (List.map_filter method_name (declared_members ds c))"

definition constructors :: "decl list \<Rightarrow> string \<Rightarrow> member list" where
  "constructors ds c = filter is_ctor (declared_members ds c)"

fun param_type :: "param list \<Rightarrow> string \<Rightarrow> ty option" where
  "param_type [] n = None"
| "param_type (p # ps) n = (if p_name p = n then Some (p_type p) else param_type ps n)"

text \<open>
  A property can be assigned to from outside the class exactly when its declaration has
  no \<open>readonly\<close> modifier (all members of the module are public).
\<close>

fun assignable :: "member \<Rightarrow> bool" where
  "assignable (Property n t ro) = (\<not> ro)"
| "assignable m = False"

definition declares :: "decl list \<Rightarrow> string \<Rightarrow> string \<Rightarrow> bool" where
  "declares ds c n = list_ex (\<lambda>m. member_name m = Some n) (declared_members ds c)"

subsection \<open>What a method is for\<close>

text \<open>
  The capabilities that the description of \<open>Connection\<close> lists, and the test that a
  method name belongs to one of them. The names follow the source: \<open>connect\<close> and
  \<open>connectSync\<close> open the session, \<open>query\<close> and \<open>querySync\<close> run a query, the six
  methods documented under \<open>commitSync\<close> manage the default transaction, and the two
  \<open>...FBevent\<close> methods subscribe to and unsubscribe from database events. A method that
  closed the session would be named after closing, disconnecting or detaching.
\<close>

datatype capability =
  OpenSession | CloseSession | RunQueries | ManageDefaultTransaction | DatabaseEvents

definition any_word :: "string list \<Rightarrow> string \<Rightarrow> bool" where
  "any_word ws n = list_ex (\<lambda>w. contains w n) ws"

fun provides :: "capability \<Rightarrow> string \<Rightarrow> bool" where
  "provides OpenSession n = starts_with ''connect'' n"
| "provides CloseSession n =
     any_word [''close'', ''Close'', ''disconnect'', ''Disconnect'', ''detach'', ''Detach''] n"
| "provides RunQueries n = starts_with ''query'' n"
| "provides ManageDefaultTransaction n =
     (n \<in> set [''startSync'', ''start'', ''commitSync'', ''commit'', ''rollbackSync'', ''rollback''])"
| "provides DatabaseEvents n = contains ''FBevent'' n"

definition capability_declared :: "decl list \<Rightarrow> string \<Rightarrow> capability \<Rightarrow> bool" where
  "capability_declared ds c cap = list_ex (provides cap) (method_names ds c)"

subsection \<open>Callbacks\<close>

text \<open>
  A callback is error-first when its first parameter has the type \<open>Error | null\<close> and it
  returns nothing.
\<close>

fun error_first :: "ty \<Rightarrow> bool" where
  "error_first (TFun ((n, t) # ps) r) = (t = Err \<and> r = TVoid)"
| "error_first t = False"

fun is_function_type :: "ty \<Rightarrow> bool" where
  "is_function_type (TFun ps r) = True"
| "is_function_type t = False"

definition callbacks :: "member \<Rightarrow> ty list" where
  "callbacks m = filter is_function_type (map p_type (m_params m))"

subsection \<open>Where a value of a declared type can come from\<close>

text \<open>
  A caller holds a value of the type named \<open>n\<close> only through a declaration that hands one
  out: a method or function whose return type mentions \<open>n\<close>, a method that passes one to
  a callback, a property whose type mentions it, or the constructor of the class \<open>n\<close>
  itself. An interface has no constructor.
\<close>

fun mentions :: "string \<Rightarrow> ty \<Rightarrow> bool"
  and mentions_any :: "string \<Rightarrow> ty list \<Rightarrow> bool"
  and mentions_params :: "string \<Rightarrow> (string \<times> ty) list \<Rightarrow> bool" where
  "mentions n (TRef r) = (r = n)"
| "mentions n (TArray t) = mentions n t"
| "mentions n (TUnion ts) = mentions_any n ts"
| "mentions n (TIndex k a b) = (mentions n a \<or> mentions n b)"
| "mentions n (TFun ps r) = (mentions_params n ps \<or> mentions n r)"
| "mentions n TVoid = False"
| "mentions n TBoolean = False"
| "mentions n TNumber = False"
| "mentions n TString = False"
| "mentions n TNull = False"
| "mentions n TThis = False"
| "mentions n TTrue = False"
| "mentions n TFalse = False"
| "mentions n TEmptyObject = False"
| "mentions n (TLit s) = False"
| "mentions n (TVar a) = False"
| "mentions_any n [] = False"
| "mentions_any n (t # ts) = (mentions n t \<or> mentions_any n ts)"
| "mentions_params n [] = False"
| "mentions_params n (p # ps) = (mentions n (snd p) \<or> mentions_params n ps)"

fun passes_to_callback :: "string \<Rightarrow> ty \<Rightarrow> bool" where
  "passes_to_callback n (TFun ps r) = mentions_params n ps"
| "passes_to_callback n t = False"

fun yields :: "string \<Rightarrow> member \<Rightarrow> bool" where
  "yields n (Ctor ps) = False"
| "yields n (Method f tps ps r) =
     (mentions n r \<or> list_ex (\<lambda>p. passes_to_callback n (p_type p)) ps)"
| "yields n (Property f t ro) = mentions n t"

fun the_name :: "member \<Rightarrow> string" where
  "the_name (Ctor ps) = ''constructor''"
| "the_name (Method f tps ps r) = f"
| "the_name (Property f t ro) = f"

fun decl_yields :: "string \<Rightarrow> decl \<Rightarrow> (string \<times> string) list" where
  "decl_yields n (ImportDecl a m) = []"
| "decl_yields n (FunctionDecl f ps r) =
     (if mentions n r \<or> list_ex (\<lambda>p. passes_to_callback n (p_type p)) ps
      then [([], f)] else [])"
| "decl_yields n (ClassDecl c b ms) =
     (if c = n then [(c, ''constructor'')] else []) @
     map (\<lambda>m. (c, the_name m)) (filter (yields n) ms)"
| "decl_yields n (InterfaceDecl c ms) = map (\<lambda>m. (c, the_name m)) (filter (yields n) ms)"
| "decl_yields n (TypeAlias a t) = []"

definition producers :: "decl list \<Rightarrow> string \<Rightarrow> (string \<times> string) list" where
  "producers ds n = concat (map (decl_yields n) ds)"

subsection \<open>The API families of the module\<close>

text \<open>
  The five families of the module's description. The declared surface is every
  top-level function and type alias and every member of every class and interface, each
  paired with its owner. \<open>FBResult\<close> and the alias \<open>DataType\<close> serve queries,
  \<open>Transaction\<close> transactions, \<open>FBStatement\<close> prepared statements, \<open>FBBlob\<close> and \<open>Stream\<close>
  BLOB streaming. The members of \<open>Connection\<close> are classified one by one, by what their
  names say with the tests of the capabilities above: the two \<open>...FBevent\<close> methods
  subscribe to database events, which is none of the five families.
\<close>

datatype family =
  Connecting | Querying | Transactions | PreparedStatements | BlobStreaming

fun type_family :: "string \<Rightarrow> family option" where
  "type_family n =
    (if n = ''createConnection'' then Some Connecting
     else if n = ''FBResult'' \<or> n = ''DataType'' then Some Querying
     else if n = ''Transaction'' then Some Transactions
     else if n = ''FBStatement'' then Some PreparedStatements
     else if n = ''FBBlob'' \<or> n = ''Stream'' then Some BlobStreaming
     else None)"

fun connection_member_family :: "string \<Rightarrow> family option" where
  "connection_member_family n =
    (if provides DatabaseEvents n then None
     else if n = ''constructor'' \<or> provides OpenSession n then Some Connecting
     else if provides RunQueries n then Some Querying
     else if starts_with ''prepare'' n then Some PreparedStatements
     else if contains ''Blob'' n then Some BlobStreaming
     else if provides ManageDefaultTransaction n \<or> contains ''Transaction'' n
       then Some Transactions
     else None)"

fun family_of :: "string \<times> string \<Rightarrow> family option" where
  "family_of (c, n) =
    (if c = [] then type_family n
     else if c = ''Connection'' then connection_member_family n
     else type_family c)"

fun decl_surface :: "decl \<Rightarrow> (string \<times> string) list" where
  "decl_surface (ImportDecl n m) = []"
| "decl_surface (FunctionDecl f ps r) = [([], f)]"
| "decl_surface (ClassDecl c b ms) = map (\<lambda>m. (c, the_name m)) ms"
| "decl_surface (InterfaceDecl c ms) = map (\<lambda>m. (c, the_name m)) ms"
| "decl_surface (TypeAlias a t) = [([], a)]"

definition surface :: "decl list \<Rightarrow> (string \<times> string) list" where
  "surface ds = concat (map decl_surface ds)"

definition family_declared :: "decl list \<Rightarrow> family \<Rightarrow> bool" where
  "family_declared ds f = list_ex (\<lambda>x. family_of x = Some f) (surface ds)"

definition outside_families :: "decl list \<Rightarrow> (string \<times> string) list" where
  "outside_families ds = filter (\<lambda>x. family_of x = None) (surface ds)"

subsection \<open>The form of the rows a fetch delivers\<close>

text \<open>
  A row is in array form when its type is \<open>DataType[]\<close>, and in object form, keyed by
  column name, when its type is \<open>{[column: string]: DataType}\<close>. A type parameter is
  neither: \<open>T extends {}\<close> admits any type the caller names. The value \<open>false\<close> of
  \<open>asObject\<close> selects the array form, \<open>true\<close> the object form. An overload accepts a
  value of the flag when the type of its \<open>asObject\<close> parameter is \<open>boolean\<close> or the
  literal type of that value. The rows of a fetch are the elements of the array it
  returns (\<open>fetchSync\<close>) or the argument of its \<open>rowCallback\<close> (\<open>fetch\<close>); a union type
  offers each of its alternatives.
\<close>

datatype row_form = ArrayRow | ObjectRow

fun selected_form :: "bool \<Rightarrow> row_form" where
  "selected_form False = ArrayRow"
| "selected_form True = ObjectRow"

fun accepts_flag :: "ty \<Rightarrow> bool \<Rightarrow> bool" where
  "accepts_flag TBoolean b = True"
| "accepts_flag TTrue b = b"
| "accepts_flag TFalse b = (\<not> b)"
| "accepts_flag t b = False"

fun has_form :: "row_form \<Rightarrow> ty option \<Rightarrow> bool" where
  "has_form ArrayRow (Some t) = (t = TArray DataType)"
| "has_form ObjectRow (Some (TIndex k kt v)) = (kt = TString \<and> v = DataType)"
| "has_form f t = False"

fun alternatives :: "ty \<Rightarrow> ty list" where
  "alternatives (TUnion ts) = ts"
| "alternatives t = [t]"

fun element :: "ty \<Rightarrow> ty option" where
  "element (TArray t) = Some t"
| "element t = None"

fun callback_rows :: "ty \<Rightarrow> ty option list" where
  "callback_rows (TFun [(n, t)] r) = map Some (alternatives t)"
| "callback_rows t = []"

definition fetched_rows :: "member \<Rightarrow> ty option list" where
  "fetched_rows m =
    (case param_type (m_params m) ''rowCallback'' of
       Some cb \<Rightarrow> callback_rows cb
     | None \<Rightarrow> (case m_ret m of Some r \<Rightarrow> map element (alternatives r) | None \<Rightarrow> []))"

definition flag_type :: "member \<Rightarrow> ty option" where
  "flag_type m = param_type (m_params m) ''asObject''"

definition accepts :: "member \<Rightarrow> bool \<Rightarrow> bool" where
  "accepts m b = (case flag_type m of Some t \<Rightarrow> accepts_flag t b | None \<Rightarrow> False)"

text \<open>
  The rows of an overload are all of the form that a flag value selects.
\<close>

definition delivers :: "member \<Rightarrow> row_form \<Rightarrow> bool" where
  "delivers m f = (fetched_rows m \<noteq> [] \<and> list_all (has_form f) (fetched_rows m))"

text \<open>
  \<open>Stream\<close> extends \<open>stream.Stream\<close>, which the runtime declares and this file does not.
  Its members are therefore a parameter: \<open>with_runtime_stream ds bs\<close> is the module
  together with a declaration of \<open>stream.Stream\<close> whose members are \<open>bs\<close>.
\<close>

definition with_runtime_stream :: "decl list \<Rightarrow> member list \<Rightarrow> decl list" where
  "with_runtime_stream ds bs = ds @ [ClassDecl ''stream.Stream'' None bs]"

section \<open>Properties of the declared surface\<close>

lemma find_Connection:
  "find_decl firebird ''Connection'' = Some (ClassDecl ''Connection'' None Connection_members)"
  by (simp add: firebird_def)

lemma find_FBResult:
  "find_decl firebird ''FBResult'' = Some (ClassDecl ''FBResult'' None FBResult_members)"
  by (simp add: firebird_def)

lemma find_Transaction:
  "find_decl firebird ''Transaction'' = Some (InterfaceDecl ''Transaction'' Transaction_members)"
  by (simp add: firebird_def)

lemma find_FBStatement:
  "find_decl firebird ''FBStatement'' =
     Some (ClassDecl ''FBStatement'' (Some ''FBResult'') FBStatement_members)"
  by (simp add: firebird_def)

lemma find_FBBlob:
  "find_decl firebird ''FBBlob'' = Some (InterfaceDecl ''FBBlob'' FBBlob_members)"
  by (simp add: firebird_def)

lemma find_Stream:
  "find_decl firebird ''Stream'' = Some (ClassDecl ''Stream'' (Some ''stream.Stream'') Stream_members)"
  by (simp add: firebird_def)

lemma find_stream_Stream: "find_decl firebird ''stream.Stream'' = None"
  by (simp add: firebird_def)

lemma length_firebird:
  "length firebird = Suc (Suc (Suc (Suc (Suc (Suc (Suc (Suc (Suc 0))))))))"
  by (simp add: firebird_def)

lemma members_Connection: "members_of firebird ''Connection'' = Connection_members"
  by (simp add: members_of_def length_firebird find_Connection)

lemma members_FBResult: "members_of firebird ''FBResult'' = FBResult_members"
  by (simp add: members_of_def length_firebird find_FBResult)

lemma members_Transaction: "members_of firebird ''Transaction'' = Transaction_members"
  by (simp add: members_of_def length_firebird find_Transaction)

lemma members_FBStatement:
  "members_of firebird ''FBStatement'' = FBStatement_members @ FBResult_members"
  by (simp add: members_of_def length_firebird find_FBStatement find_FBResult FBResult_members_def)

lemma members_FBBlob: "members_of firebird ''FBBlob'' = FBBlob_members"
  by (simp add: members_of_def length_firebird find_FBBlob)

lemma members_Stream: "members_of firebird ''Stream'' = Stream_members"
  by (simp add: members_of_def length_firebird find_Stream find_stream_Stream)

lemma Connection_method_names:
  "method_names firebird ''Connection'' =
    [''connectSync'', ''connect'', ''querySync'', ''query'', ''addFBevent'', ''deleteFBevent'',
     ''commitSync'', ''commit'', ''rollbackSync'', ''rollback'', ''startSync'', ''start'',
     ''prepareSync'', ''newBlobSync'', ''startNewTransactionSync'', ''startNewTransaction'']"
  by (simp add: method_names_def declared_members_def find_Connection Connection_members_def
      List.map_filter_simps)

text \<open>
  The test for a closing method is not empty: it finds \<open>_closeSync\<close> on the BLOB handle.
\<close>

lemma blob_declares_close: "capability_declared firebird ''FBBlob'' CloseSession"
  by (simp add: capability_declared_def method_names_def declared_members_def find_FBBlob
      FBBlob_members_def List.map_filter_simps any_word_def)

text \<open>
  C2, as stated: \<open>Connection\<close> declares at least one method for each of the five
  capabilities, closing the session included. It does not: none of the sixteen methods
  of \<open>Connection\<close> closes the session.
\<close>

theorem C2_no_close_counterexample:
  "\<not> capability_declared firebird ''Connection'' CloseSession"
  by (simp add: capability_declared_def Connection_method_names any_word_def)

text \<open>
  C2, as amended: for every capability other than closing the session (opening the
  session, running queries, managing the default transaction, database events)
  \<open>Connection\<close> declares at least one method, and it declares each of \<open>connectSync\<close>,
  \<open>connect\<close>, \<open>querySync\<close>, \<open>query\<close>, \<open>startSync\<close>, \<open>start\<close>, \<open>commitSync\<close>, \<open>commit\<close>,
  \<open>rollbackSync\<close>, \<open>rollback\<close>, \<open>addFBevent\<close> and \<open>deleteFBevent\<close>.
\<close>

theorem C2_connection_capabilities:
  "cap \<noteq> CloseSession \<Longrightarrow>
     capability_declared firebird ''Connection'' cap
     \<and> list_all (\<lambda>n. n \<in> set (method_names firebird ''Connection''))
         [''connectSync'', ''connect'', ''querySync'', ''query'', ''startSync'', ''start'',
          ''commitSync'', ''commit'', ''rollbackSync'', ''rollback'', ''addFBevent'',
          ''deleteFBevent'']"
  by (cases cap) (simp_all add: capability_declared_def Connection_method_names)

theorem C2_connection_capabilities_witness:
  "OpenSession \<noteq> CloseSession \<and> capability_declared firebird ''Connection'' OpenSession"
  using C2_connection_capabilities [of OpenSession] by simp

lemma fetchSync_overloads:
  "overloads firebird ''FBResult'' ''fetchSync'' =
    [ Method ''fetchSync'' [] [row_count, req ''asObject'' TBoolean]
        (TUnion [TArray (TArray DataType), TArray keyed_row]),
      Method ''fetchSync'' [] [row_count, req ''asObject'' TFalse] (TArray (TArray DataType)),
      Method ''fetchSync'' [] [row_count, req ''asObject'' TTrue] (TArray keyed_row),
      Method ''fetchSync'' [(''T'', TEmptyObject)] [row_count, req ''asObject'' TTrue]
        (TArray (TVar ''T'')) ]"
  by (simp add: overloads_def members_FBResult FBResult_members_def)

lemma fetch_overloads:
  "overloads firebird ''FBResult'' ''fetch'' =
    [ Method ''fetch'' []
        [row_count, req ''asObject'' TBoolean,
         req ''rowCallback'' (TFun [(''row'', TUnion [TArray DataType, keyed_row])] TVoid),
         eof_callback] TVoid,
      Method ''fetch'' []
        [row_count, req ''asObject'' TFalse,
         req ''rowCallback'' (TFun [(''row'', TArray DataType)] TVoid),
         eof_callback] TVoid,
      Method ''fetch'' []
        [row_count, req ''asObject'' TTrue,
         req ''rowCallback'' (TFun [(''row'', keyed_row)] TVoid),
         eof_callback] TVoid,
      Method ''fetch'' [(''T'', TEmptyObject)]
        [row_count, req ''asObject'' TTrue,
         req ''rowCallback'' (TFun [(''row'', TVar ''T'')] TVoid),
         eof_callback] TVoid ]"
  by (simp add: overloads_def members_FBResult FBResult_members_def)

lemma fetch_rows_by_flag:
  "\<forall>n \<in> set [''fetchSync'', ''fetch''].
     \<forall>m \<in> set (overloads firebird ''FBResult'' n).
       (flag_type m = Some TFalse \<longrightarrow> delivers m ArrayRow)
       \<and> (flag_type m = Some TTrue \<and> m_tparams m = [] \<longrightarrow> delivers m ObjectRow)
       \<and> (flag_type m = Some TTrue \<and> m_tparams m \<noteq> [] \<longrightarrow>
            m_tparams m = [(''T'', TEmptyObject)] \<and> fetched_rows m = [Some (TVar ''T'')])
       \<and> (flag_type m = Some TBoolean \<longrightarrow>
            fetched_rows m = [Some (TArray DataType), Some keyed_row])"
  by (simp add: fetchSync_overloads fetch_overloads flag_type_def fetched_rows_def delivers_def)

text \<open>
  C3, as stated: for every call with \<open>asObject = false\<close> the fetched rows are arrays of
  field values, and for every call with \<open>asObject = true\<close> they are objects keyed by
  column name. The declarations do not say so of every call. The first overload of
  \<open>fetchSync\<close> takes \<open>asObject: boolean\<close>, so it accepts \<open>false\<close>, and returns the union
  \<open>DataType[][] | Array<{[column: string]: DataType}>\<close>; the last overload accepts
  \<open>true\<close> and returns \<open>T[]\<close> for any \<open>T extends {}\<close>. The same holds of the rows that the
  first and the last overload of \<open>fetch\<close> pass to \<open>rowCallback\<close>.
\<close>

theorem C3_not_every_call_counterexample:
  "accepts (overloads firebird ''FBResult'' ''fetchSync'' ! 0) False
   \<and> \<not> delivers (overloads firebird ''FBResult'' ''fetchSync'' ! 0) (selected_form False)
   \<and> m_ret (overloads firebird ''FBResult'' ''fetchSync'' ! 0) \<noteq> Some (TArray (TArray DataType))
   \<and> accepts (overloads firebird ''FBResult'' ''fetchSync'' ! 3) True
   \<and> \<not> delivers (overloads firebird ''FBResult'' ''fetchSync'' ! 3) (selected_form True)
   \<and> accepts (overloads firebird ''FBResult'' ''fetch'' ! 0) False
   \<and> \<not> delivers (overloads firebird ''FBResult'' ''fetch'' ! 0) (selected_form False)
   \<and> accepts (overloads firebird ''FBResult'' ''fetch'' ! 3) True
   \<and> \<not> delivers (overloads firebird ''FBResult'' ''fetch'' ! 3) (selected_form True)"
  by (simp add: fetchSync_overloads fetch_overloads accepts_def flag_type_def delivers_def
      fetched_rows_def)

text \<open>
  C3, as amended. \<open>FBResult\<close> declares the synchronous \<open>fetchSync\<close> and the asynchronous
  \<open>fetch\<close>, each with four overloads, which are exactly the ones written out below. In
  both, an overload declared for \<open>asObject: false\<close> delivers rows of type \<open>DataType[]\<close>
  only (\<open>fetchSync\<close> then returns \<open>DataType[][]\<close>); the overload declared for
  \<open>asObject: true\<close> without a type parameter delivers objects keyed by column name only;
  the overload declared for \<open>asObject: true\<close> with the type parameter \<open>T extends {}\<close>
  delivers rows of the caller's type \<open>T\<close>; and the overload declared for
  \<open>asObject: boolean\<close> declares the union of the array form and the keyed object form.
  Every overload of \<open>fetch\<close> returns nothing, and takes a \<open>rowCallback\<close> of one row and
  an \<open>eofCallback\<close> of an error and the end-of-data flag.
\<close>

theorem C3_fetch_forms:
  "overloads firebird ''FBResult'' ''fetchSync'' =
    [ Method ''fetchSync'' [] [row_count, req ''asObject'' TBoolean]
        (TUnion [TArray (TArray DataType), TArray keyed_row]),
      Method ''fetchSync'' [] [row_count, req ''asObject'' TFalse] (TArray (TArray DataType)),
      Method ''fetchSync'' [] [row_count, req ''asObject'' TTrue] (TArray keyed_row),
      Method ''fetchSync'' [(''T'', TEmptyObject)] [row_count, req ''asObject'' TTrue]
        (TArray (TVar ''T'')) ]
   \<and> overloads firebird ''FBResult'' ''fetch'' =
    [ Method ''fetch'' []
        [row_count, req ''asObject'' TBoolean,
         req ''rowCallback'' (TFun [(''row'', TUnion [TArray DataType, keyed_row])] TVoid),
         eof_callback] TVoid,
      Method ''fetch'' []
        [row_count, req ''asObject'' TFalse,
         req ''rowCallback'' (TFun [(''row'', TArray DataType)] TVoid),
         eof_callback] TVoid,
      Method ''fetch'' []
        [row_count, req ''asObject'' TTrue,
         req ''rowCallback'' (TFun [(''row'', keyed_row)] TVoid),
         eof_callback] TVoid,
      Method ''fetch'' [(''T'', TEmptyObject)]
        [row_count, req ''asObject'' TTrue,
         req ''rowCallback'' (TFun [(''row'', TVar ''T'')] TVoid),
         eof_callback] TVoid ]
   \<and> (\<forall>n \<in> set [''fetchSync'', ''fetch''].
        \<forall>m \<in> set (overloads firebird ''FBResult'' n).
          (flag_type m = Some TFalse \<longrightarrow> delivers m ArrayRow)
          \<and> (flag_type m = Some TTrue \<and> m_tparams m = [] \<longrightarrow> delivers m ObjectRow)
          \<and> (flag_type m = Some TTrue \<and> m_tparams m \<noteq> [] \<longrightarrow>
               m_tparams m = [(''T'', TEmptyObject)] \<and> fetched_rows m = [Some (TVar ''T'')])
          \<and> (flag_type m = Some TBoolean \<longrightarrow>
               fetched_rows m = [Some (TArray DataType), Some keyed_row]))
   \<and> map flag_type (overloads firebird ''FBResult'' ''fetchSync'') =
       [Some TBoolean, Some TFalse, Some TTrue, Some TTrue]
   \<and> map flag_type (overloads firebird ''FBResult'' ''fetch'') =
       [Some TBoolean, Some TFalse, Some TTrue, Some TTrue]
   \<and> map m_ret
       (filter (\<lambda>m. flag_type m = Some TFalse) (overloads firebird ''FBResult'' ''fetchSync''))
       = [Some (TArray (TArray DataType))]
   \<and> (\<forall>m \<in> set (overloads firebird ''FBResult'' ''fetch'').
        m_ret m = Some TVoid
        \<and> param_type (m_params m) ''rowCallback'' \<noteq> None
        \<and> fetched_rows m \<noteq> []
        \<and> param_type (m_params m) ''eofCallback'' =
            Some (TFun [(''err'', Err), (''eof'', TBoolean)] TVoid))"
proof -
  have b: "map flag_type (overloads firebird ''FBResult'' ''fetchSync'') =
       [Some TBoolean, Some TFalse, Some TTrue, Some TTrue]"
    by (simp add: fetchSync_overloads flag_type_def)
  have c: "map flag_type (overloads firebird ''FBResult'' ''fetch'') =
       [Some TBoolean, Some TFalse, Some TTrue, Some TTrue]"
    by (simp add: fetch_overloads flag_type_def)
  have d: "map m_ret
       (filter (\<lambda>m. flag_type m = Some TFalse) (overloads firebird ''FBResult'' ''fetchSync''))
       = [Some (TArray (TArray DataType))]"
    by (simp add: fetchSync_overloads flag_type_def)
  have e: "\<forall>m \<in> set (overloads firebird ''FBResult'' ''fetch'').
        m_ret m = Some TVoid
        \<and> param_type (m_params m) ''rowCallback'' \<noteq> None
        \<and> fetched_rows m \<noteq> []
        \<and> param_type (m_params m) ''eofCallback'' =
            Some (TFun [(''err'', Err), (''eof'', TBoolean)] TVoid)"
    by (simp add: fetch_overloads fetched_rows_def)
  show ?thesis
    using fetchSync_overloads fetch_overloads fetch_rows_by_flag b c d e by blast
qed

theorem C3_fetch_forms_witness:
  "flag_type (overloads firebird ''FBResult'' ''fetchSync'' ! 1) = Some TFalse
   \<and> delivers (overloads firebird ''FBResult'' ''fetchSync'' ! 1) ArrayRow
   \<and> flag_type (overloads firebird ''FBResult'' ''fetch'' ! 2) = Some TTrue
   \<and> m_tparams (overloads firebird ''FBResult'' ''fetch'' ! 2) = []
   \<and> delivers (overloads firebird ''FBResult'' ''fetch'' ! 2) ObjectRow"
proof -
  let ?s = "overloads firebird ''FBResult'' ''fetchSync'' ! 1"
  let ?a = "overloads firebird ''FBResult'' ''fetch'' ! 2"
  have s: "?s \<in> set (overloads firebird ''FBResult'' ''fetchSync'')"
    by (simp add: fetchSync_overloads)
  have a: "?a \<in> set (overloads firebird ''FBResult'' ''fetch'')"
    by (simp add: fetch_overloads)
  have fs: "flag_type ?s = Some TFalse"
    by (simp add: fetchSync_overloads flag_type_def)
  have fa: "flag_type ?a = Some TTrue" "m_tparams ?a = []"
    by (simp_all add: fetch_overloads flag_type_def)
  have n1: "''fetchSync'' \<in> set [''fetchSync'', ''fetch'']" by simp
  have n2: "''fetch'' \<in> set [''fetchSync'', ''fetch'']" by simp
  from C3_fetch_forms n1 s fs have r1: "delivers ?s ArrayRow"
    by blast
  from C3_fetch_forms n2 a fa have r2: "delivers ?a ObjectRow"
    by blast
  show ?thesis
    using fs fa r1 r2 by blast
qed

text \<open>
  C4. \<open>FBStatement\<close> extends \<open>FBResult\<close>: every member of \<open>FBResult\<close> is a member of
  \<open>FBStatement\<close>, in particular all four overloads of \<open>fetchSync\<close> and all four of
  \<open>fetch\<close>. Of its own, \<open>FBStatement\<close> declares exactly \<open>execSync\<close> and \<open>exec\<close>, which
  take the statement's parameters only (they run in the default transaction of the
  connection), and \<open>execInTransSync\<close> and \<open>execInTrans\<close>, which take a \<open>Transaction\<close>
  before the parameters.
\<close>

theorem C4_statement_extends_result:
  "class_extends firebird ''FBStatement'' = Some ''FBResult''
   \<and> (\<forall>m \<in> set (members_of firebird ''FBResult''). m \<in> set (members_of firebird ''FBStatement''))
   \<and> overloads firebird ''FBStatement'' ''fetchSync'' = overloads firebird ''FBResult'' ''fetchSync''
   \<and> overloads firebird ''FBStatement'' ''fetch'' = overloads firebird ''FBResult'' ''fetch''
   \<and> length (overloads firebird ''FBResult'' ''fetchSync'') = 4
   \<and> length (overloads firebird ''FBResult'' ''fetch'') = 4
   \<and> declared_members firebird ''FBStatement'' =
       [ Method ''execSync'' [] [rest ''params'' (TArray DataType)] TVoid,
         Method ''execInTransSync'' []
           [req ''transaction'' (TRef ''Transaction''), rest ''params'' (TArray DataType)] TVoid,
         Method ''exec'' [] [rest ''params'' (TArray DataType)] TVoid,
         Method ''execInTrans'' []
           [req ''transaction'' (TRef ''Transaction''), rest ''params'' (TArray DataType)] TVoid ]"
proof -
  have e: "class_extends firebird ''FBStatement'' = Some ''FBResult''"
    by (simp add: class_extends_def find_FBStatement)
  have i: "\<forall>m \<in> set (members_of firebird ''FBResult'').
      m \<in> set (members_of firebird ''FBStatement'')"
    by (simp add: members_FBStatement members_FBResult)
  have s: "overloads firebird ''FBStatement'' ''fetchSync'' =
      overloads firebird ''FBResult'' ''fetchSync''"
    by (simp add: overloads_def members_FBStatement members_FBResult FBStatement_members_def)
  have a: "overloads firebird ''FBStatement'' ''fetch'' = overloads firebird ''FBResult'' ''fetch''"
    by (simp add: overloads_def members_FBStatement members_FBResult FBStatement_members_def)
  have n: "length (overloads firebird ''FBResult'' ''fetchSync'') = 4"
    by (simp add: fetchSync_overloads)
  have k: "length (overloads firebird ''FBResult'' ''fetch'') = 4"
    by (simp add: fetch_overloads)
  have d: "declared_members firebird ''FBStatement'' = FBStatement_members"
    by (simp add: declared_members_def find_FBStatement)
  show ?thesis
    unfolding d using e i s a n k by (simp add: FBStatement_members_def)
qed

theorem C4_statement_extends_result_witness:
  "Method ''fetchSync'' [] [row_count, req ''asObject'' TFalse] (TArray (TArray DataType))
     \<in> set (members_of firebird ''FBResult'')
   \<and> Method ''fetchSync'' [] [row_count, req ''asObject'' TFalse] (TArray (TArray DataType))
     \<in> set (members_of firebird ''FBStatement'')"
proof -
  have h: "Method ''fetchSync'' [] [row_count, req ''asObject'' TFalse] (TArray (TArray DataType))
     \<in> set (members_of firebird ''FBResult'')"
    by (simp add: members_FBResult FBResult_members_def)
  from C4_statement_extends_result have
    "\<forall>m \<in> set (members_of firebird ''FBResult''). m \<in> set (members_of firebird ''FBStatement'')"
    by blast
  with h show ?thesis by blast
qed




text \<open>
  For comparison, a \<open>Connection\<close> comes from the factory function or from its own
  constructor.
\<close>

lemma producers_Connection:
  "producers firebird ''Connection'' =
     [([], ''createConnection''), (''Connection'', ''constructor'')]"
  by (simp add: producers_def firebird_def Connection_members_def FBResult_members_def
      Transaction_members_def FBStatement_members_def FBBlob_members_def Stream_members_def)


lemma blob_overloads:
  "overloads firebird ''FBBlob'' ''_read'' =
     [Method ''_read'' [] [req ''buffer'' Buffer, req ''callback'' read_callback] TVoid]"
  "overloads firebird ''FBBlob'' ''_readAll'' =
     [Method ''_readAll'' []
        [opt ''initialSize'' TNumber, opt ''chunkSize'' TNumber, opt ''callback'' read_callback]
        TVoid,
      Method ''_readAll'' [] [req ''initialSize'' TNumber, req ''callback'' read_callback] TVoid,
      Method ''_readAll'' [] [req ''callback'' read_callback] TVoid]"
  "overloads firebird ''FBBlob'' ''_write'' =
     [Method ''_write'' []
        [req ''buffer'' Buffer, opt ''len'' TNumber, opt ''callback'' err_callback] TVoid]"
  by (simp_all add: overloads_def members_FBBlob FBBlob_members_def)

text \<open>
  C6. \<open>FBBlob\<close> declares the synchronous segment operations \<open>_readSync(buffer)\<close> and
  \<open>_writeSync(buffer, len?)\<close>, both returning a number, documented as the number of
  bytes actually read and actually written (only \<open>len\<close> bytes when \<open>len\<close> is given). It
  declares the asynchronous \<open>_read(buffer, callback)\<close>, which fills the given buffer,
  \<open>_readAll\<close> in three overloads (optional initial size, chunk size and callback; initial
  size and callback; callback alone), and \<open>_write(buffer, len?, callback?)\<close>. The
  callbacks of the two reads receive the error, the buffer and the length of the data,
  the callback of the write the error alone. Every overload of the three returns
  nothing and takes a callback, and each of its callbacks is error-first.
\<close>

theorem C6_blob_segment_io:
  "overloads firebird ''FBBlob'' ''_readSync'' =
     [Method ''_readSync'' [] [req ''buffer'' Buffer] TNumber]
   \<and> overloads firebird ''FBBlob'' ''_writeSync'' =
     [Method ''_writeSync'' [] [req ''buffer'' Buffer, opt ''len'' TNumber] TNumber]
   \<and> doc_says ''FBBlob._readSync'' ''@returns actual number of bytes read.''
   \<and> doc_says ''FBBlob._writeSync'' ''@returns number of bytes actually writen.''
   \<and> doc_says ''FBBlob._writeSync'' ''if specified only len bytes from buffer will be writen.''
   \<and> overloads firebird ''FBBlob'' ''_read'' =
     [Method ''_read'' []
        [req ''buffer'' Buffer,
         req ''callback''
           (TFun [(''err'', Err), (''buffer'', Buffer), (''len'', TNumber)] TVoid)] TVoid]
   \<and> overloads firebird ''FBBlob'' ''_readAll'' =
     [Method ''_readAll'' []
        [opt ''initialSize'' TNumber, opt ''chunkSize'' TNumber,
         opt ''callback''
           (TFun [(''err'', Err), (''buffer'', Buffer), (''len'', TNumber)] TVoid)] TVoid,
      Method ''_readAll'' []
        [req ''initialSize'' TNumber,
         req ''callback''
           (TFun [(''err'', Err), (''buffer'', Buffer), (''len'', TNumber)] TVoid)] TVoid,
      Method ''_readAll'' []
        [req ''callback''
           (TFun [(''err'', Err), (''buffer'', Buffer), (''len'', TNumber)] TVoid)] TVoid]
   \<and> overloads firebird ''FBBlob'' ''_write'' =
     [Method ''_write'' []
        [req ''buffer'' Buffer, opt ''len'' TNumber,
         opt ''callback'' (TFun [(''err'', Err)] TVoid)] TVoid]
   \<and> (\<forall>n \<in> set [''_read'', ''_readAll'', ''_write''].
        overloads firebird ''FBBlob'' n \<noteq> []
        \<and> (\<forall>m \<in> set (overloads firebird ''FBBlob'' n).
              m_ret m = Some TVoid \<and> callbacks m \<noteq> [] \<and> list_all error_first (callbacks m)))"
proof -
  have r: "overloads firebird ''FBBlob'' ''_readSync'' =
     [Method ''_readSync'' [] [req ''buffer'' Buffer] TNumber]"
    by (simp add: overloads_def members_FBBlob FBBlob_members_def)
  have w: "overloads firebird ''FBBlob'' ''_writeSync'' =
     [Method ''_writeSync'' [] [req ''buffer'' Buffer, opt ''len'' TNumber] TNumber]"
    by (simp add: overloads_def members_FBBlob FBBlob_members_def)
  have d1: "doc_says ''FBBlob._readSync'' ''@returns actual number of bytes read.''"
    by (simp add: doc_says_def doc_lines_def documentation_def)
  have d2: "doc_says ''FBBlob._writeSync'' ''@returns number of bytes actually writen.''"
    by (simp add: doc_says_def doc_lines_def documentation_def)
  have d3: "doc_says ''FBBlob._writeSync''
      ''if specified only len bytes from buffer will be writen.''"
    by (simp add: doc_says_def doc_lines_def documentation_def)
  have c: "\<forall>n \<in> set [''_read'', ''_readAll'', ''_write''].
        overloads firebird ''FBBlob'' n \<noteq> []
        \<and> (\<forall>m \<in> set (overloads firebird ''FBBlob'' n).
              m_ret m = Some TVoid \<and> callbacks m \<noteq> [] \<and> list_all error_first (callbacks m))"
    by (simp add: blob_overloads callbacks_def)
  show ?thesis
    by (intro conjI) (rule r w d1 d2 d3 c blob_overloads)+
qed

theorem C6_blob_segment_io_witness:
  "overloads firebird ''FBBlob'' ''_read'' \<noteq> []
   \<and> list_all error_first (callbacks (hd (overloads firebird ''FBBlob'' ''_read'')))"
proof -
  have "''_read'' \<in> set [''_read'', ''_readAll'', ''_write'']" by simp
  with C6_blob_segment_io have
    h: "overloads firebird ''FBBlob'' ''_read'' \<noteq> []
        \<and> (\<forall>m \<in> set (overloads firebird ''FBBlob'' ''_read'').
              m_ret m = Some TVoid \<and> callbacks m \<noteq> [] \<and> list_all error_first (callbacks m))"
    by blast
  then have "hd (overloads firebird ''FBBlob'' ''_read'')
      \<in> set (overloads firebird ''FBBlob'' ''_read'')"
    by simp
  with h show ?thesis by blast
qed

lemma members_Stream_with_runtime:
  "members_of (with_runtime_stream firebird bs) ''Stream'' =
     Stream_members @ filter (\<lambda>m. \<not> is_ctor m) bs"
  by (simp add: members_of_def with_runtime_stream_def length_firebird)
     (simp add: firebird_def)

text \<open>
  C7. The class \<open>Stream\<close> has one constructor, which takes exactly one \<open>FBBlob\<close>, and it
  extends \<open>stream.Stream\<close>, the \<open>Stream\<close> of the imported runtime module \<open>'stream'\<close>. Its
  own members are exactly the ones written out below: the readable side (\<open>readable\<close>,
  \<open>pause\<close>, \<open>resume\<close>) and the writable side (\<open>writable\<close>, \<open>write\<close> of a buffer or a string,
  \<open>end\<close> with or without last data, \<open>destroy\<close>), and \<open>check_destroyed\<close>. Whatever method
  or property the runtime's \<open>stream.Stream\<close> declares (its \<open>pipe\<close>, for one) is a member
  of \<open>Stream\<close> too, and the documentation of \<open>Stream\<close> says that it may be piped to and
  from the streams of the runtime.
\<close>

theorem C7_stream_adapts_blob:
  "declared_members firebird ''Stream'' =
    [ Ctor [req ''blob'' (TRef ''FBBlob'')],
      Property ''readable'' TBoolean False,
      Method ''pause'' [] [] TThis,
      Method ''resume'' [] [] TThis,
      Property ''writable'' TBoolean False,
      Method ''write'' []
        [req ''buffer'' (TUnion [Buffer, TString]), opt ''cb'' (TRef ''Function'')] TBoolean,
      Method ''write'' []
        [req ''str'' TString, opt ''encoding'' TString, opt ''cb'' (TRef ''Function'')] TBoolean,
      Method ''end'' [] [] TThis,
      Method ''end'' [] [req ''buffer'' Buffer, opt ''cb'' (TRef ''Function'')] TThis,
      Method ''end'' [] [req ''str'' TString, opt ''cb'' (TRef ''Function'')] TThis,
      Method ''end'' []
        [req ''str'' TString, opt ''encoding'' TString, opt ''cb'' (TRef ''Function'')] TThis,
      Method ''destroy'' [] [opt ''error'' (TRef ''Error'')] TThis,
      Method ''check_destroyed'' [] [] TVoid ]
   \<and> constructors firebird ''Stream'' = [Ctor [req ''blob'' (TRef ''FBBlob'')]]
   \<and> class_extends firebird ''Stream'' = Some ''stream.Stream''
   \<and> ImportDecl ''stream'' ''stream'' \<in> set firebird
   \<and> properties firebird ''Stream'' ''readable'' = [Property ''readable'' TBoolean False]
   \<and> properties firebird ''Stream'' ''writable'' = [Property ''writable'' TBoolean False]
   \<and> list_all (declares firebird ''Stream'')
       [''readable'', ''pause'', ''resume'', ''writable'', ''write'', ''end'', ''destroy'']
   \<and> map (\<lambda>n. length (overloads firebird ''Stream'' n))
       [''pause'', ''resume'', ''write'', ''end'', ''destroy''] = [1, 1, 2, 4, 1]
   \<and> (\<forall>m \<in> set bs. \<not> is_ctor m \<longrightarrow>
         m \<in> set (members_of (with_runtime_stream firebird bs) ''Stream''))
   \<and> doc_says ''Stream'' ''You may pipe strm to/from NodeJS Stream objects''"
proof -
  have m: "declared_members firebird ''Stream'' = Stream_members"
    by (simp add: declared_members_def find_Stream)
  have c: "constructors firebird ''Stream'' = [Ctor [req ''blob'' (TRef ''FBBlob'')]]"
    by (simp add: constructors_def declared_members_def find_Stream Stream_members_def)
  have e: "class_extends firebird ''Stream'' = Some ''stream.Stream''"
    by (simp add: class_extends_def find_Stream)
  have i: "ImportDecl ''stream'' ''stream'' \<in> set firebird"
    by (simp add: firebird_def)
  have r: "properties firebird ''Stream'' ''readable'' = [Property ''readable'' TBoolean False]"
    by (simp add: properties_def members_Stream Stream_members_def)
  have w: "properties firebird ''Stream'' ''writable'' = [Property ''writable'' TBoolean False]"
    by (simp add: properties_def members_Stream Stream_members_def)
  have d: "list_all (declares firebird ''Stream'')
       [''readable'', ''pause'', ''resume'', ''writable'', ''write'', ''end'', ''destroy'']"
    by (simp add: declares_def declared_members_def find_Stream Stream_members_def)
  have n: "map (\<lambda>n. length (overloads firebird ''Stream'' n))
       [''pause'', ''resume'', ''write'', ''end'', ''destroy''] = [1, 1, 2, 4, 1]"
    by (simp add: overloads_def members_Stream Stream_members_def)
  have p: "\<forall>m \<in> set bs. \<not> is_ctor m \<longrightarrow>
         m \<in> set (members_of (with_runtime_stream firebird bs) ''Stream'')"
    by (simp add: members_Stream_with_runtime)
  have s: "doc_says ''Stream'' ''You may pipe strm to/from NodeJS Stream objects''"
    by (simp add: doc_says_def doc_lines_def documentation_def)
  have m': "declared_members firebird ''Stream'' =
    [ Ctor [req ''blob'' (TRef ''FBBlob'')],
      Property ''readable'' TBoolean False,
      Method ''pause'' [] [] TThis,
      Method ''resume'' [] [] TThis,
      Property ''writable'' TBoolean False,
      Method ''write'' []
        [req ''buffer'' (TUnion [Buffer, TString]), opt ''cb'' (TRef ''Function'')] TBoolean,
      Method ''write'' []
        [req ''str'' TString, opt ''encoding'' TString, opt ''cb'' (TRef ''Function'')] TBoolean,
      Method ''end'' [] [] TThis,
      Method ''end'' [] [req ''buffer'' Buffer, opt ''cb'' (TRef ''Function'')] TThis,
      Method ''end'' [] [req ''str'' TString, opt ''cb'' (TRef ''Function'')] TThis,
      Method ''end'' []
        [req ''str'' TString, opt ''encoding'' TString, opt ''cb'' (TRef ''Function'')] TThis,
      Method ''destroy'' [] [opt ''error'' (TRef ''Error'')] TThis,
      Method ''check_destroyed'' [] [] TVoid ]"
    unfolding m by (simp add: Stream_members_def)
  show ?thesis
    by (intro conjI) (rule m' c e i r w d n p s)+
qed

theorem C7_stream_adapts_blob_witness:
  "Method ''pipe'' [(''T'', TRef ''NodeJS.WritableStream'')] [req ''destination'' (TVar ''T'')]
     (TVar ''T'')
   \<in> set (members_of
       (with_runtime_stream firebird
          [Method ''pipe'' [(''T'', TRef ''NodeJS.WritableStream'')]
             [req ''destination'' (TVar ''T'')] (TVar ''T'')])
       ''Stream'')"
proof -
  let ?pipe = "Method ''pipe'' [(''T'', TRef ''NodeJS.WritableStream'')]
     [req ''destination'' (TVar ''T'')] (TVar ''T'')"
  have a: "?pipe \<in> set [?pipe]" by simp
  have b: "\<not> is_ctor ?pipe" by simp
  from C7_stream_adapts_blob [of "[?pipe]"] have
    "\<forall>m \<in> set [?pipe]. \<not> is_ctor m \<longrightarrow>
       m \<in> set (members_of (with_runtime_stream firebird [?pipe]) ''Stream'')"
    by blast
  with a b show ?thesis by blast
qed

lemma firebird_surface:
  "surface firebird =
     [([], ''createConnection'')] @
     map (\<lambda>m. (''Connection'', the_name m)) Connection_members @
     [([], ''DataType'')] @
     map (\<lambda>m. (''FBResult'', the_name m)) FBResult_members @
     map (\<lambda>m. (''Transaction'', the_name m)) Transaction_members @
     map (\<lambda>m. (''FBStatement'', the_name m)) FBStatement_members @
     map (\<lambda>m. (''FBBlob'', the_name m)) FBBlob_members @
     map (\<lambda>m. (''Stream'', the_name m)) Stream_members"
  by (simp add: surface_def firebird_def)

lemma firebird_outside_families:
  "outside_families firebird = [(''Connection'', ''addFBevent''), (''Connection'', ''deleteFBevent'')]"
  by (simp add: outside_families_def firebird_surface Connection_members_def FBResult_members_def
      Transaction_members_def FBStatement_members_def FBBlob_members_def Stream_members_def)

text \<open>
  C8, as stated: the declared surface covers exactly the five advertised families. It
  covers more: \<open>Connection.addFBevent\<close> subscribes to database events, which is none of
  connecting, querying, managing transactions, preparing statements and streaming BLOB
  data.
\<close>

theorem C8_events_outside_counterexample:
  "(''Connection'', ''addFBevent'') \<in> set (outside_families firebird)
   \<and> capability_declared firebird ''Connection'' DatabaseEvents"
  by (simp add: firebird_outside_families capability_declared_def Connection_method_names)

text \<open>
  C8, as amended. Every one of the five API families (connecting, querying,
  transactions, prepared statements, BLOB streaming) has a declaration in the module.
  In particular the module declares the factory \<open>createConnection\<close>, which returns a
  \<open>Connection\<close>, and the types \<open>Connection\<close>, \<open>Transaction\<close>, \<open>FBStatement\<close>, \<open>FBBlob\<close> and
  \<open>Stream\<close>; and \<open>Connection\<close> declares \<open>querySync\<close> and \<open>query\<close>, the start, commit and
  rollback methods of the default transaction, and \<open>prepareSync\<close>. The declarations of
  the module that belong to none of the five families are exactly the two database-event
  methods \<open>addFBevent\<close> and \<open>deleteFBevent\<close> of \<open>Connection\<close>.
\<close>

theorem C8_api_families:
  "family_declared firebird f
   \<and> outside_families firebird =
       [(''Connection'', ''addFBevent''), (''Connection'', ''deleteFBevent'')]
   \<and> find_decl firebird ''createConnection'' =
       Some (FunctionDecl ''createConnection'' [] (TRef ''Connection''))
   \<and> list_all (\<lambda>c. find_decl firebird c \<noteq> None)
       [''Connection'', ''Transaction'', ''FBStatement'', ''FBBlob'', ''Stream'']
   \<and> list_all (declares firebird ''Connection'')
       [''querySync'', ''query'', ''startSync'', ''start'', ''commitSync'', ''commit'',
        ''rollbackSync'', ''rollback'', ''prepareSync'']"
proof -
  have a: "family_declared firebird f"
    by (cases f)
       (simp_all add: family_declared_def firebird_surface Connection_members_def
         FBResult_members_def Transaction_members_def FBStatement_members_def
         FBBlob_members_def Stream_members_def)
  have c: "find_decl firebird ''createConnection'' =
       Some (FunctionDecl ''createConnection'' [] (TRef ''Connection''))"
    by (simp add: firebird_def)
  have d: "list_all (\<lambda>c. find_decl firebird c \<noteq> None)
       [''Connection'', ''Transaction'', ''FBStatement'', ''FBBlob'', ''Stream'']"
    by (simp add: find_Connection find_Transaction find_FBStatement find_FBBlob find_Stream)
  have e: "list_all (declares firebird ''Connection'')
       [''querySync'', ''query'', ''startSync'', ''start'', ''commitSync'', ''commit'',
        ''rollbackSync'', ''rollback'', ''prepareSync'']"
    by (simp add: declares_def declared_members_def find_Connection Connection_members_def)
  show ?thesis
    by (intro conjI) (rule a firebird_outside_families c d e)+
qed

text \<open>
  C9. \<open>Transaction.querySync(sql)\<close> is declared to return \<open>void\<close>, although its
  documentation says that it returns an FBResult object on success;
  \<open>Connection.querySync(sql)\<close>, with the same parameter, is declared to return \<open>FBResult\<close>.
  So the two declarations differ in their return type, and the return value of the
  transactional one carries no result set.
\<close>

theorem C9_transaction_querySync_void:
  "overloads firebird ''Transaction'' ''querySync'' =
     [Method ''querySync'' [] [req ''sql'' TString] TVoid]
   \<and> doc_says ''Transaction.querySync'' ''Returns FBResult object in case of success''
   \<and> overloads firebird ''Connection'' ''querySync'' =
     [Method ''querySync'' [] [req ''sql'' TString] (TRef ''FBResult'')]
   \<and> map m_ret (overloads firebird ''Transaction'' ''querySync'')
     \<noteq> map m_ret (overloads firebird ''Connection'' ''querySync'')"
proof -
  have t: "overloads firebird ''Transaction'' ''querySync'' =
      [Method ''querySync'' [] [req ''sql'' TString] TVoid]"
    by (simp add: overloads_def members_Transaction Transaction_members_def)
  have c: "overloads firebird ''Connection'' ''querySync'' =
      [Method ''querySync'' [] [req ''sql'' TString] (TRef ''FBResult'')]"
    by (simp add: overloads_def members_Connection Connection_members_def)
  have d: "doc_says ''Transaction.querySync'' ''Returns FBResult object in case of success''"
    by (simp add: doc_says_def doc_lines_def documentation_def)
  show ?thesis
    by (simp add: t c d)
qed

text \<open>
  C10. \<open>Connection.connected\<close> and \<open>Connection.inTransaction\<close> are documented as readonly
  boolean properties, but each is declared as a boolean field without the \<open>readonly\<close>
  modifier, so the declared class lets any holder of a connection assign to both.
\<close>

theorem C10_readonly_only_documented:
  "properties firebird ''Connection'' ''connected'' = [Property ''connected'' TBoolean False]
   \<and> properties firebird ''Connection'' ''inTransaction'' =
     [Property ''inTransaction'' TBoolean False]
   \<and> doc_says ''Connection.connected'' ''A boolean readonly property''
   \<and> doc_says ''Connection.inTransaction'' ''A boolean readonly property''
   \<and> list_all assignable (properties firebird ''Connection'' ''connected'')
   \<and> list_all assignable (properties firebird ''Connection'' ''inTransaction'')"
proof -
  have a: "properties firebird ''Connection'' ''connected'' =
      [Property ''connected'' TBoolean False]"
    by (simp add: properties_def members_Connection Connection_members_def)
  have b: "properties firebird ''Connection'' ''inTransaction'' =
      [Property ''inTransaction'' TBoolean False]"
    by (simp add: properties_def members_Connection Connection_members_def)
  have c: "doc_says ''Connection.connected'' ''A boolean readonly property''"
    by (simp add: doc_says_def doc_lines_def documentation_def)
  have d: "doc_says ''Connection.inTransaction'' ''A boolean readonly property''"
    by (simp add: doc_says_def doc_lines_def documentation_def)
  show ?thesis
    by (simp add: a b c d)
qed

end
